theory Spec2Isabelle
  imports Complex_Main "HOL-Library.AList"
begin

section \<open>Values and exceptions\<close>

text \<open>
  What \<^verbatim>\<open>response.json()\<close> returns. \<open>JNull\<close> is Python's \<^verbatim>\<open>None\<close>; a dict is the
  list of its items, looked up with \<open>map_of\<close>. The client session of the host parses
  strictly: it rejects \<^verbatim>\<open>NaN\<close> and the infinities, so a float is a finite double, which
  is a rational, and \<^verbatim>\<open>int(x)\<close> is exact on it.
\<close>

datatype json =
    JNull
  | JBool bool
  | JInt int
  | JFloat rat
  | JStr string
  | JList "json list"
  | JDict "(string \<times> json) list"

text \<open>The exception classes that the two modules raise, catch or let through.\<close>

datatype exn =
    BaseException
  | Exception
  | CancelledError
  | NameError
  | UnboundLocalError
  | ValueError
  | OverflowError
  | TypeError
  | AttributeError
  | TimeoutError
  | ClientError
  | HomeAssistantError
  | FingridApiClientError
  | FingridApiAuthError
  | FingridApiRateLimitError
  | FingridApiError
  | ConfigEntryAuthFailed
  | UpdateFailed

text \<open>The proper ancestors of each class, nearest first (exceptions.py and the builtins).\<close>

fun superclasses :: "exn \<Rightarrow> exn list" where
  "superclasses BaseException = []"
| "superclasses Exception = [BaseException]"
| "superclasses CancelledError = [BaseException]"
| "superclasses NameError = [Exception, BaseException]"
| "superclasses UnboundLocalError = [NameError, Exception, BaseException]"
| "superclasses ValueError = [Exception, BaseException]"
| "superclasses OverflowError = [Exception, BaseException]"
| "superclasses TypeError = [Exception, BaseException]"
| "superclasses AttributeError = [Exception, BaseException]"
| "superclasses TimeoutError = [Exception, BaseException]"
| "superclasses ClientError = [Exception, BaseException]"
| "superclasses HomeAssistantError = [Exception, BaseException]"
| "superclasses FingridApiClientError = [HomeAssistantError, Exception, BaseException]"
| "superclasses FingridApiAuthError =
     [FingridApiClientError, HomeAssistantError, Exception, BaseException]"
| "superclasses FingridApiRateLimitError =
     [FingridApiClientError, HomeAssistantError, Exception, BaseException]"
| "superclasses FingridApiError =
     [FingridApiClientError, HomeAssistantError, Exception, BaseException]"
| "superclasses ConfigEntryAuthFailed = [HomeAssistantError, Exception, BaseException]"
| "superclasses UpdateFailed = [HomeAssistantError, Exception, BaseException]"

definition isinstance :: "exn \<Rightarrow> exn \<Rightarrow> bool" where
  "isinstance e c = (e = c \<or> c \<in> set (superclasses e))"

section \<open>coordinator.py: fetching one dataset\<close>

text \<open>
  What the server does with the one GET that \<^verbatim>\<open>_async_fetch_dataset\<close> issues: either
  \<^verbatim>\<open>session.get\<close> raises (network failure, timeout, cancellation), or a response
  arrives with a status; \<open>json_body\<close> is what \<^verbatim>\<open>await response.json()\<close> gives and
  \<open>text_body\<close> what \<^verbatim>\<open>await response.text()\<close> gives, each of which may raise.
\<close>

record response =
  status :: int
  json_body :: "exn + json"
  text_body :: "exn + string"

datatype get_outcome = GetRaises exn | Got response

text \<open>The body of the \<^verbatim>\<open>async with\<close> block, lines 76 to 104.\<close>

definition fetch_body :: "response \<Rightarrow> exn + json" where
  "fetch_body r =
     (if status r = 200 then
        (case json_body r of
           Inl e \<Rightarrow> Inl e
         | Inr api_response \<Rightarrow>
             (case api_response of
                JDict items \<Rightarrow>
                  (case map_of items ''data'' of
                     Some (JList (latest_entry # rest)) \<Rightarrow> Inr latest_entry
                   | _ \<Rightarrow> Inr JNull)
              | _ \<Rightarrow> Inr JNull))
      else if status r \<in> {401, 403} then Inl FingridApiAuthError
      else if status r = 429 then Inl FingridApiRateLimitError
      else
        (case text_body r of
           Inl e \<Rightarrow> Inl e
         | Inr response_text \<Rightarrow> Inl FingridApiError))"

text \<open>
  The three \<^verbatim>\<open>except\<close> clauses of lines 106 to 114, tried in order. They enclose the
  whole block above, the \<^verbatim>\<open>raise\<close> statements of lines 92, 95 and 104 included.
\<close>

definition fetch_handlers :: "exn \<Rightarrow> exn + json" where
  "fetch_handlers e =
     (if isinstance e ClientError then Inl FingridApiError
      else if isinstance e TimeoutError then Inl FingridApiError
      else if isinstance e Exception then Inl FingridApiError
      else Inl e)"

definition async_fetch_dataset :: "string \<Rightarrow> get_outcome \<Rightarrow> exn + json" where
  "async_fetch_dataset dataset_id outcome =
     (case (case outcome of GetRaises e \<Rightarrow> Inl e | Got r \<Rightarrow> fetch_body r) of
        Inl e \<Rightarrow> fetch_handlers e
      | Inr v \<Rightarrow> Inr v)"

section \<open>coordinator.py: one poll cycle\<close>

text \<open>
  The local variables of \<^verbatim>\<open>_async_update_data\<close>. \<open>result\<close> is \<open>None\<close> while the name is
  still unbound and \<open>Some v\<close> once an assignment \<^verbatim>\<open>result = await ...\<close> has completed.
  \<open>fetched\<close> lists the dataset ids for which the fetch has been called, in order; it
  is the trace of the GETs the cycle has issued.
\<close>

record cycle_state =
  data_results :: "(string \<times> json) list"
  auth_failure_raised :: bool
  result :: "json option"
  fetched :: "string list"

definition initial_state :: cycle_state where
  "initial_state =
     \<lparr>data_results = [], auth_failure_raised = False, result = None, fetched = []\<rparr>"

text \<open>\<^verbatim>\<open>data_results[dataset_id] = v\<close>\<close>

definition record_result :: "string \<Rightarrow> json \<Rightarrow> cycle_state \<Rightarrow> cycle_state" where
  "record_result dataset_id v st =
     st\<lparr>data_results := AList.update dataset_id v (data_results st)\<rparr>"

text \<open>
  \<^verbatim>\<open>isinstance(result, <exception class>)\<close> in lines 155 to 167: \<open>result\<close> holds what
  the fetch returned, a JSON value or \<^verbatim>\<open>None\<close>, which is an instance of no exception
  class.
\<close>

definition json_isinstance :: "json \<Rightarrow> exn \<Rightarrow> bool" where
  "json_isinstance v c = False"

text \<open>
  Lines 155 to 174, the statements of the loop body that follow the delay. Reading
  \<open>result\<close> while it is unbound raises \<^verbatim>\<open>UnboundLocalError\<close>. A step yields the
  exception that leaves the loop, if any, and the state reached.
\<close>

definition after_delay :: "string \<Rightarrow> cycle_state \<Rightarrow> exn option \<times> cycle_state" where
  "after_delay dataset_id st =
     (case result st of
        None \<Rightarrow> (Some UnboundLocalError, st)
      | Some res \<Rightarrow>
          if json_isinstance res FingridApiAuthError then
            (if \<not> auth_failure_raised st then (Some ConfigEntryAuthFailed, st)
             else (None, record_result dataset_id JNull (st\<lparr>auth_failure_raised := True\<rparr>)))
          else if json_isinstance res FingridApiRateLimitError
                  \<or> json_isinstance res FingridApiError then
            (None, record_result dataset_id JNull st)
          else if json_isinstance res Exception then
            (None, record_result dataset_id JNull st)
          else if res \<noteq> JNull then (None, record_result dataset_id res st)
          else (None, record_result dataset_id JNull st))"

text \<open>
  Lines 132 to 153 followed by \<open>after_delay\<close>: one iteration of the loop, for the
  dataset id and what its fetch does (raise \<open>Inl e\<close> or return \<open>Inr v\<close>).
\<close>

definition loop_body ::
  "cycle_state \<Rightarrow> string \<times> (exn + json) \<Rightarrow> exn option \<times> cycle_state" where
  "loop_body st x =
     (let dataset_id = fst x;
          st0 = st\<lparr>fetched := fetched st @ [dataset_id]\<rparr>
      in case snd x of
           Inr v \<Rightarrow>
             (let st1 = st0\<lparr>result := Some v\<rparr>
              in if v \<noteq> JNull then after_delay dataset_id (record_result dataset_id v st1)
                 else after_delay dataset_id (record_result dataset_id JNull st1))
         | Inl e \<Rightarrow>
             if isinstance e FingridApiAuthError then
               (if \<not> auth_failure_raised st0 then (Some ConfigEntryAuthFailed, st0)
                else after_delay dataset_id
                       (record_result dataset_id JNull (st0\<lparr>auth_failure_raised := True\<rparr>)))
             else if isinstance e FingridApiRateLimitError \<or> isinstance e FingridApiError then
               after_delay dataset_id (record_result dataset_id JNull st0)
             else if isinstance e Exception then
               after_delay dataset_id (record_result dataset_id JNull st0)
             else (Some e, st0))"

text \<open>The \<^verbatim>\<open>for\<close> loop of line 131 over the enabled dataset ids.\<close>

fun fetch_loop ::
  "cycle_state \<Rightarrow> (string \<times> (exn + json)) list \<Rightarrow> exn option \<times> cycle_state" where
  "fetch_loop st [] = (None, st)"
| "fetch_loop st (x # xs) =
     (case loop_body st x of
        (Some e, st') \<Rightarrow> (Some e, st')
      | (None, st') \<Rightarrow> fetch_loop st' xs)"

text \<open>
  \<^verbatim>\<open>_async_update_data\<close> on the enabled dataset ids, each paired with what its fetch
  does. Line 180 reads \<^verbatim>\<open>results\<close>, a name that is bound nowhere, before line 181
  can raise \<^verbatim>\<open>UpdateFailed\<close>. The outcome is the exception raised or the snapshot
  returned, with the ids fetched.
\<close>

definition update_data ::
  "(string \<times> (exn + json)) list \<Rightarrow> (exn + (string \<times> json) list) \<times> string list" where
  "update_data enabled =
     (case fetch_loop initial_state enabled of
        (Some e, st) \<Rightarrow> (Inl e, fetched st)
      | (None, st) \<Rightarrow>
          if data_results st = [] \<and> enabled \<noteq> [] then
            (if \<not> auth_failure_raised st then (Inl NameError, fetched st)
             else (Inr (data_results st), fetched st))
          else (Inr (data_results st), fetched st))"

text \<open>
  The same cycle with the fetch of this module: each enabled dataset id is paired with
  what the server does with its GET.
\<close>

definition async_update_data ::
  "(string \<times> get_outcome) list \<Rightarrow> (exn + (string \<times> json) list) \<times> string list" where
  "async_update_data enabled =
     update_data (map (\<lambda>(dataset_id, outcome).
        (dataset_id, async_fetch_dataset dataset_id outcome)) enabled)"

section \<open>sensor.py: the value presenters\<close>

definition POWER_SYSTEM_STATE_MAP :: "(int \<times> string) list" where
  "POWER_SYSTEM_STATE_MAP =
     [(1, ''Normal''), (2, ''Endangered''), (3, ''Disturbed''), (4, ''Blackout''),
      (5, ''Restoration'')]"

definition POWER_SYSTEM_STATE_UNKNOWN :: string where
  "POWER_SYSTEM_STATE_UNKNOWN = ''Unknown''"

definition ELECTRICITY_SHORTAGE_STATUS_MAP :: "(int \<times> string) list" where
  "ELECTRICITY_SHORTAGE_STATUS_MAP =
     [(0, ''Normal''), (1, ''Electricity shortage possible''),
      (2, ''High risk of electricity shortage''), (3, ''Electricity shortage'')]"

definition ELECTRICITY_SHORTAGE_STATUS_UNKNOWN :: string where
  "ELECTRICITY_SHORTAGE_STATUS_UNKNOWN = ''Unknown''"

text \<open>\<^verbatim>\<open>table.get(key, default)\<close>\<close>

definition get_default :: "('k \<times> 'v) list \<Rightarrow> 'k \<Rightarrow> 'v \<Rightarrow> 'v" where
  "get_default table k d = (case map_of table k of Some v \<Rightarrow> v | None \<Rightarrow> d)"

text \<open>\<^verbatim>\<open>int(x)\<close> on a float truncates towards zero.\<close>

definition int_of_float :: "rat \<Rightarrow> int" where
  "int_of_float q = (if 0 \<le> q then \<lfloor>q\<rfloor> else \<lceil>q\<rceil>)"

text \<open>
  \<^verbatim>\<open>isinstance(v, (int, float))\<close> and, where it holds, \<^verbatim>\<open>int(v)\<close>. \<open>None\<close> is the value of
  no such type. \<^verbatim>\<open>bool\<close> is a subclass of \<^verbatim>\<open>int\<close>.
\<close>

fun number_to_int :: "json \<Rightarrow> int option" where
  "number_to_int (JInt n) = Some n"
| "number_to_int (JBool b) = Some (if b then 1 else 0)"
| "number_to_int (JFloat f) = Some (int_of_float f)"
| "number_to_int v = None"

text \<open>Truth value of a JSON value in a condition.\<close>

fun truthy :: "json \<Rightarrow> bool" where
  "truthy JNull = False"
| "truthy (JBool b) = b"
| "truthy (JInt n) = (n \<noteq> 0)"
| "truthy (JFloat f) = (f \<noteq> 0)"
| "truthy (JStr s) = (s \<noteq> [])"
| "truthy (JList xs) = (xs \<noteq> [])"
| "truthy (JDict items) = (items \<noteq> [])"

fun is_substring :: "string \<Rightarrow> string \<Rightarrow> bool" where
  "is_substring xs [] = (xs = [])"
| "is_substring xs (y # ys) = (take (length xs) (y # ys) = xs \<or> is_substring xs ys)"

text \<open>
  \<^verbatim>\<open>key in v\<close> for a string key: a key of a dict, an element of a list, a substring
  of a string, and \<^verbatim>\<open>TypeError\<close> on a value that is no container.
\<close>

fun py_in :: "string \<Rightarrow> json \<Rightarrow> exn + bool" where
  "py_in k (JDict items) = Inr (map_of items k \<noteq> None)"
| "py_in k (JList xs) = Inr (JStr k \<in> set xs)"
| "py_in k (JStr s) = Inr (is_substring k s)"
| "py_in k v = Inl TypeError"

datatype sensor_kind = PowerSystemState | GridFrequency | ElectricityShortage

text \<open>
  The fields of a \<^verbatim>\<open>FingridSensor\<close> that the presenters read and write; \<open>kind\<close> is the
  subclass. Each subclass starts with \<^verbatim>\<open>_attr_extra_state_attributes = {}\<close>.
\<close>

record sensor =
  kind :: sensor_kind
  sensor_dataset_id :: string
  attr_native_value :: json
  attr_extra_state_attributes :: "(string \<times> json) list"

definition new_sensor :: "sensor_kind \<Rightarrow> string \<Rightarrow> sensor" where
  "new_sensor k d =
     \<lparr>kind = k, sensor_dataset_id = d, attr_native_value = JNull,
      attr_extra_state_attributes = []\<rparr>"

text \<open>\<^verbatim>\<open>FingridSensor._update_state\<close>, lines 113 to 126; \<^verbatim>\<open>.get\<close> exists on a dict only.\<close>

definition base_update_state :: "sensor \<Rightarrow> json \<Rightarrow> exn + sensor" where
  "base_update_state s dataset_data =
     (case dataset_data of
        JDict items \<Rightarrow>
          (let s1 = s\<lparr>attr_native_value := get_default items ''value'' JNull\<rparr>
           in case map_of items ''endTime'' of
                Some t \<Rightarrow>
                  Inr (s1\<lparr>attr_extra_state_attributes :=
                         AList.update ''api_timestamp'' t (attr_extra_state_attributes s1)\<rparr>)
              | None \<Rightarrow>
                  (case map_of items ''startTime'' of
                     Some t \<Rightarrow>
                       Inr (s1\<lparr>attr_extra_state_attributes :=
                              AList.update ''api_timestamp'' t (attr_extra_state_attributes s1)\<rparr>)
                   | None \<Rightarrow> Inr s1))
      | _ \<Rightarrow> Inl AttributeError)"

text \<open>\<^verbatim>\<open>FingridPowerSystemStateSensor._update_state\<close>, lines 149 to 159.\<close>

definition power_system_update_state :: "sensor \<Rightarrow> json \<Rightarrow> exn + sensor" where
  "power_system_update_state s dataset_data =
     (case dataset_data of
        JDict items \<Rightarrow>
          (let current_value = get_default items ''value'' JNull
           in case number_to_int current_value of
                Some numeric_value \<Rightarrow>
                  (let description =
                         get_default POWER_SYSTEM_STATE_MAP numeric_value POWER_SYSTEM_STATE_UNKNOWN
                   in Inr (s\<lparr>attr_native_value := JStr description,
                              attr_extra_state_attributes :=
                                AList.update ''raw_value'' (JInt numeric_value)
                                  (attr_extra_state_attributes s)\<rparr>))
              | None \<Rightarrow> Inr (s\<lparr>attr_native_value := JStr POWER_SYSTEM_STATE_UNKNOWN\<rparr>))
      | _ \<Rightarrow> Inl AttributeError)"

text \<open>\<^verbatim>\<open>FingridElectricityShortageSensor._update_state\<close>, lines 202 to 214.\<close>

definition shortage_update_state :: "sensor \<Rightarrow> json \<Rightarrow> exn + sensor" where
  "shortage_update_state s dataset_data =
     (case dataset_data of
        JDict items \<Rightarrow>
          (let current_value = get_default items ''value'' JNull
           in case number_to_int current_value of
                Some numeric_value \<Rightarrow>
                  (let description_text =
                         get_default ELECTRICITY_SHORTAGE_STATUS_MAP numeric_value
                           ELECTRICITY_SHORTAGE_STATUS_UNKNOWN
                   in Inr (s\<lparr>attr_native_value := JStr description_text,
                              attr_extra_state_attributes :=
                                AList.update ''raw_value'' (JInt numeric_value)
                                  (attr_extra_state_attributes s)\<rparr>))
              | None \<Rightarrow> Inr (s\<lparr>attr_native_value := JStr ELECTRICITY_SHORTAGE_STATUS_UNKNOWN\<rparr>))
      | _ \<Rightarrow> Inl AttributeError)"

text \<open>
  \<^verbatim>\<open>self._update_state(dataset_data)\<close>: the method of the sensor's class. The grid
  frequency sensor inherits the method of the base class.
\<close>

definition update_state :: "sensor \<Rightarrow> json \<Rightarrow> exn + sensor" where
  "update_state s dataset_data =
     (case kind s of
        PowerSystemState \<Rightarrow> power_system_update_state s dataset_data
      | GridFrequency \<Rightarrow> base_update_state s dataset_data
      | ElectricityShortage \<Rightarrow> shortage_update_state s dataset_data)"

text \<open>
  What a sensor reads of its coordinator: \<open>last_update_success\<close>, which is the
  \<^verbatim>\<open>available\<close> of the base class \<^verbatim>\<open>CoordinatorEntity\<close>, and \<open>data\<close>, the snapshot last
  published, \<open>None\<close> before the first one.
\<close>

record coordinator =
  last_update_success :: bool
  data :: "(string \<times> json) list option"

text \<open>\<^verbatim>\<open>FingridSensor.available\<close>, lines 82 to 90.\<close>

definition available :: "coordinator \<Rightarrow> sensor \<Rightarrow> bool" where
  "available c s =
     (last_update_success c
      \<and> (case data c of
           None \<Rightarrow> False
         | Some snapshot \<Rightarrow>
             (case map_of snapshot (sensor_dataset_id s) of
                None \<Rightarrow> False
              | Some dataset_data \<Rightarrow> dataset_data \<noteq> JNull)))"

text \<open>
  Modelled from the spec: the host's entity registry, which \<^verbatim>\<open>async_write_ha_state\<close>
  hands the sensor to, is not part of this repository. Following sections 4.3 and 7 of
  the specification, a sensor whose \<^verbatim>\<open>available\<close> is false is shown as "unavailable",
  and otherwise its \<^verbatim>\<open>_attr_native_value\<close> is shown.
\<close>

datatype presented = Unavailable | Shown json

definition presented_state :: "coordinator \<Rightarrow> sensor \<Rightarrow> presented" where
  "presented_state c s = (if available c s then Shown (attr_native_value s) else Unavailable)"

text \<open>
  The sensors from which the host expects a number: those whose description sets a unit
  of measurement, a device class or a state class. \<^verbatim>\<open>FingridGridFrequencySensor\<close> alone
  sets them.
\<close>

definition numeric_state_expected :: "sensor \<Rightarrow> bool" where
  "numeric_state_expected s = (kind s = GridFrequency)"

text \<open>
  What the host accepts as a number: an int, a bool, a float, or a string that
  \<^verbatim>\<open>int\<close> or \<^verbatim>\<open>float\<close> can read. Reading a string is left to the parameter
  \<open>str_is_number\<close>.
\<close>

fun is_numeric_state :: "(string \<Rightarrow> bool) \<Rightarrow> json \<Rightarrow> bool" where
  "is_numeric_state str_is_number (JInt n) = True"
| "is_numeric_state str_is_number (JBool b) = True"
| "is_numeric_state str_is_number (JFloat f) = True"
| "is_numeric_state str_is_number (JStr x) = str_is_number x"
| "is_numeric_state str_is_number v = False"

text \<open>
  Modelled from the spec: \<^verbatim>\<open>async_write_ha_state\<close> is a method of the host's entity
  class and is not part of this repository. An entity whose \<^verbatim>\<open>available\<close> is false is
  written as "unavailable" and its state is not read. Otherwise the state is read: the
  value \<^verbatim>\<open>None\<close> is written as it is, and where a number is expected a value that is
  none raises \<^verbatim>\<open>ValueError\<close>. The result is the exception raised or the state written.
\<close>

definition async_write_ha_state ::
  "(string \<Rightarrow> bool) \<Rightarrow> coordinator \<Rightarrow> sensor \<Rightarrow> exn + presented" where
  "async_write_ha_state str_is_number c s =
     (if \<not> available c s then Inr Unavailable
      else if attr_native_value s = JNull then Inr (Shown JNull)
      else if numeric_state_expected s
              \<and> \<not> is_numeric_state str_is_number (attr_native_value s) then Inl ValueError
      else Inr (Shown (attr_native_value s)))"

text \<open>
  Lines 95 to 110 of \<^verbatim>\<open>FingridSensor._handle_coordinator_update\<close>, the statements before
  the state is written.
\<close>

definition update_from_coordinator :: "coordinator \<Rightarrow> sensor \<Rightarrow> exn + sensor" where
  "update_from_coordinator c s =
     (case data c of
        None \<Rightarrow> Inr s
      | Some snapshot \<Rightarrow>
          if snapshot = [] then Inr s
          else
            (case map_of snapshot (sensor_dataset_id s) of
               None \<Rightarrow> Inr s
             | Some dataset_data \<Rightarrow>
                 if \<not> truthy dataset_data then Inr s
                 else
                   (case py_in ''value'' dataset_data of
                      Inl e \<Rightarrow> Inl e
                    | Inr has_value \<Rightarrow>
                        if has_value then update_state s dataset_data else Inr s)))"

text \<open>
  \<^verbatim>\<open>FingridSensor._handle_coordinator_update\<close>, lines 92 to 111: the statements above
  and then \<^verbatim>\<open>self.async_write_ha_state()\<close>. The result is the fields of the sensor
  after the callback, or the exception it raises.
\<close>

definition handle_coordinator_update ::
  "(string \<Rightarrow> bool) \<Rightarrow> coordinator \<Rightarrow> sensor \<Rightarrow> exn + sensor" where
  "handle_coordinator_update str_is_number c s =
     (case update_from_coordinator c s of
        Inl e \<Rightarrow> Inl e
      | Inr s' \<Rightarrow>
          (case async_write_ha_state str_is_number c s' of
             Inl e \<Rightarrow> Inl e
           | Inr written \<Rightarrow> Inr s'))"

section \<open>Concrete inputs\<close>

text \<open>An observation of dataset 209 as the API sends it.\<close>

definition observation_209 :: json where
  "observation_209 =
     JDict [(''value'', JInt 2), (''endTime'', JStr ''2024-01-01T00:03:00Z'')]"

text \<open>A response with the given status and JSON body, and an empty text.\<close>

definition http_response :: "int \<Rightarrow> json \<Rightarrow> response" where
  "http_response code body = \<lparr>status = code, json_body = Inr body, text_body = Inr []\<rparr>"

text \<open>A power system state sensor that shows "Endangered" from an earlier update.\<close>

definition endangered_sensor :: sensor where
  "endangered_sensor =
     \<lparr>kind = PowerSystemState, sensor_dataset_id = ''209'',
      attr_native_value = JStr ''Endangered'',
      attr_extra_state_attributes = [(''raw_value'', JInt 2)]\<rparr>"

section \<open>Properties of the fetch\<close>

lemmas fetch_defs =
  async_fetch_dataset_def fetch_body_def fetch_handlers_def isinstance_def

lemmas cycle_defs =
  update_data_def loop_body_def after_delay_def record_result_def initial_state_def
  json_isinstance_def isinstance_def Let_def

text \<open>
  C4. A response with status 200 whose JSON body is a dict with a non-empty list under
  \<^verbatim>\<open>data\<close> gives the first element of that list. A response with status 200 whose body
  is no dict, has no \<^verbatim>\<open>data\<close> key, has something else than a list there, or has the
  empty list there, gives \<^verbatim>\<open>None\<close> and raises nothing.
\<close>

theorem fetch_dataset_success:
  assumes "status r = 200" and "json_body r = Inr body"
  shows "(body = JDict items \<and> map_of items ''data'' = Some (JList (first # others))
            \<longrightarrow> async_fetch_dataset dataset_id (Got r) = Inr first)
       \<and> ((\<forall>its. body \<noteq> JDict its)
           \<or> (body = JDict items \<and> map_of items ''data'' = None)
           \<or> (body = JDict items \<and> map_of items ''data'' = Some v \<and> (\<forall>ys. v \<noteq> JList ys))
           \<or> (body = JDict items \<and> map_of items ''data'' = Some (JList []))
            \<longrightarrow> async_fetch_dataset dataset_id (Got r) = Inr JNull)"
  using assms
  by (auto simp: async_fetch_dataset_def fetch_body_def
      split: json.splits option.splits list.splits)

theorem fetch_dataset_success_witness:
  "async_fetch_dataset ''209''
     (Got (http_response 200 (JDict [(''data'', JList [observation_209, JNull])])))
     = Inr observation_209
   \<and> async_fetch_dataset ''209'' (Got (http_response 200 (JList [observation_209])))
     = Inr JNull
   \<and> async_fetch_dataset ''209'' (Got (http_response 200 (JDict [(''items'', JList [])])))
     = Inr JNull
   \<and> async_fetch_dataset ''209'' (Got (http_response 200 (JDict [(''data'', observation_209)])))
     = Inr JNull
   \<and> async_fetch_dataset ''209'' (Got (http_response 200 (JDict [(''data'', JList [])])))
     = Inr JNull"
  using
    fetch_dataset_success
      [of "http_response 200 (JDict [(''data'', JList [observation_209, JNull])])"
          "JDict [(''data'', JList [observation_209, JNull])]"
          "[(''data'', JList [observation_209, JNull])]" observation_209 "[JNull]" "''209''"
          JNull]
    fetch_dataset_success
      [of "http_response 200 (JList [observation_209])" "JList [observation_209]"
          "[]" JNull "[]" "''209''" JNull]
    fetch_dataset_success
      [of "http_response 200 (JDict [(''items'', JList [])])" "JDict [(''items'', JList [])]"
          "[(''items'', JList [])]" JNull "[]" "''209''" JNull]
    fetch_dataset_success
      [of "http_response 200 (JDict [(''data'', observation_209)])"
          "JDict [(''data'', observation_209)]"
          "[(''data'', observation_209)]" JNull "[]" "''209''" observation_209]
    fetch_dataset_success
      [of "http_response 200 (JDict [(''data'', JList [])])" "JDict [(''data'', JList [])]"
          "[(''data'', JList [])]" JNull "[]" "''209''" JNull]
  by (simp add: http_response_def observation_209_def)

text \<open>
  The fetch never raises \<^verbatim>\<open>FingridApiAuthError\<close> or \<^verbatim>\<open>FingridApiRateLimitError\<close>: the
  last \<^verbatim>\<open>except\<close> clause catches both and raises \<^verbatim>\<open>FingridApiError\<close> in their place.
\<close>

lemma fetch_never_raises_auth_or_rate_limit:
  "async_fetch_dataset d outcome \<noteq> Inl FingridApiAuthError
   \<and> async_fetch_dataset d outcome \<noteq> Inl FingridApiRateLimitError"
  by (cases outcome)
    (auto simp: fetch_defs split: sum.splits json.splits option.splits list.splits if_splits)

text \<open>
  C5. The specification has status 401 or 403 raise the authentication error and
  status 429 the rate limit error. On a response with status 401, 403 or 429 the fetch raises
  \<^verbatim>\<open>FingridApiError\<close>, the generic error.
\<close>

theorem fetch_auth_status_raises_generic_error:
  "async_fetch_dataset ''209'' (Got (http_response 401 JNull)) = Inl FingridApiError
   \<and> async_fetch_dataset ''209'' (Got (http_response 403 JNull)) = Inl FingridApiError
   \<and> async_fetch_dataset ''209'' (Got (http_response 429 JNull)) = Inl FingridApiError"
  by (simp add: fetch_defs http_response_def)

section \<open>Properties of the poll cycle\<close>

lemma fetch_loop_append:
  "fetch_loop st (xs @ ys) =
     (case fetch_loop st xs of
        (Some e, st') \<Rightarrow> (Some e, st')
      | (None, st') \<Rightarrow> fetch_loop st' ys)"
  by (induction xs arbitrary: st) (auto split: prod.splits option.splits)

lemma after_delay_keeps:
  "after_delay d st = (r, st') \<Longrightarrow>
   auth_failure_raised st' = auth_failure_raised st \<and> fetched st' = fetched st"
  by (auto simp: after_delay_def json_isinstance_def record_result_def
      split: option.splits if_splits)

text \<open>An iteration that starts with the flag clear ends with the flag clear.\<close>

lemma loop_body_flag:
  "loop_body st x = (r, st') \<Longrightarrow> \<not> auth_failure_raised st \<Longrightarrow>
   \<not> auth_failure_raised st' \<and> fetched st' = fetched st @ [fst x]"
  by (auto simp: loop_body_def Let_def record_result_def
      split: sum.splits if_splits dest!: after_delay_keeps)

lemma fetch_loop_flag:
  "fetch_loop st xs = (r, st') \<Longrightarrow> \<not> auth_failure_raised st \<Longrightarrow> \<not> auth_failure_raised st'"
proof (induction xs arbitrary: st)
  case Nil
  then show ?case by simp
next
  case (Cons x xs)
  obtain r1 st1 where b: "loop_body st x = (r1, st1)"
    by (cases "loop_body st x")
  with Cons.prems(2) have f: "\<not> auth_failure_raised st1"
    using loop_body_flag by blast
  show ?case
  proof (cases r1)
    case None
    with b Cons.prems(1) have "fetch_loop st1 xs = (r, st')" by simp
    with f show ?thesis using Cons.IH by blast
  next
    case (Some e)
    with b Cons.prems(1) have "st' = st1" by simp
    with f show ?thesis by simp
  qed
qed

lemma fetch_loop_fetched:
  "fetch_loop st xs = (None, st') \<Longrightarrow> \<not> auth_failure_raised st \<Longrightarrow>
   fetched st' = fetched st @ map fst xs"
proof (induction xs arbitrary: st)
  case Nil
  then show ?case by simp
next
  case (Cons x xs)
  obtain r1 st1 where b: "loop_body st x = (r1, st1)"
    by (cases "loop_body st x")
  with Cons.prems(2) have f: "\<not> auth_failure_raised st1" "fetched st1 = fetched st @ [fst x]"
    using loop_body_flag by blast+
  from b Cons.prems(1) have "r1 = None" by (cases r1) auto
  with b Cons.prems(1) have "fetch_loop st1 xs = (None, st')" by simp
  with f show ?case using Cons.IH by fastforce
qed

text \<open>
  The exceptions that leave the loop: the re-authentication signal, the unbound
  \<open>result\<close>, or an exception of the fetch that is no \<^verbatim>\<open>Exception\<close>. \<^verbatim>\<open>UpdateFailed\<close> is
  none of them, and the statement that would raise it after the loop is never reached.
\<close>

lemma after_delay_raises:
  "after_delay d st = (Some e, st') \<Longrightarrow> e = UnboundLocalError"
  by (auto simp: after_delay_def json_isinstance_def split: option.splits if_splits)

lemma loop_body_raises:
  "loop_body st x = (Some e, st') \<Longrightarrow>
   e = ConfigEntryAuthFailed \<or> e = UnboundLocalError \<or> \<not> isinstance e Exception"
  by (auto simp: loop_body_def Let_def split: sum.splits if_splits dest: after_delay_raises)

lemma fetch_loop_raises:
  "fetch_loop st xs = (Some e, st') \<Longrightarrow>
   e = ConfigEntryAuthFailed \<or> e = UnboundLocalError \<or> \<not> isinstance e Exception"
proof (induction xs arbitrary: st)
  case Nil
  then show ?case by simp
next
  case (Cons x xs)
  obtain r1 st1 where b: "loop_body st x = (r1, st1)"
    by (cases "loop_body st x")
  show ?case
  proof (cases r1)
    case None
    with b Cons.prems have "fetch_loop st1 xs = (Some e, st')" by simp
    then show ?thesis by (rule Cons.IH)
  next
    case (Some e1)
    with b Cons.prems have "e1 = e" by simp
    with b Some show ?thesis using loop_body_raises by blast
  qed
qed

lemma update_data_never_raises_UpdateFailed:
  "fst (update_data enabled) \<noteq> Inl UpdateFailed"
proof -
  obtain r st where f: "fetch_loop initial_state enabled = (r, st)"
    by (cases "fetch_loop initial_state enabled")
  show ?thesis
  proof (cases r)
    case None
    with f show ?thesis by (simp add: update_data_def)
  next
    case (Some e)
    with f have "e = ConfigEntryAuthFailed \<or> e = UnboundLocalError
                 \<or> \<not> isinstance e Exception"
      using fetch_loop_raises by blast
    then have "e \<noteq> UpdateFailed" by (auto simp: isinstance_def)
    with f Some show ?thesis by (simp add: update_data_def)
  qed
qed

text \<open>
  C1. The specification has a dataset whose fetch fails with a rate limit or generic
  API error recorded as absent while the others keep their results. With datasets 209
  and 177 enabled, 209 answered with an observation and 177 with status 429, the
  snapshot returned holds the observation of 209 under 177 as well: after the delay the
  loop body stores \<open>result\<close>, still bound to what the previous fetch returned.
\<close>

theorem failed_fetch_records_previous_observation:
  "async_update_data
     [(''209'', Got (http_response 200 (JDict [(''data'', JList [observation_209])]))),
      (''177'', Got (http_response 429 JNull))]
   = (Inr [(''209'', observation_209), (''177'', observation_209)], [''209'', ''177''])"
  by (simp add: async_update_data_def cycle_defs fetch_defs http_response_def
      observation_209_def)

text \<open>
  C2. The specification has a cycle in which every enabled dataset ended absent raise
  \<^verbatim>\<open>UpdateFailed\<close> and publish nothing. With dataset 209 alone enabled and answered
  with status 200 and an empty \<^verbatim>\<open>data\<close> list, the cycle returns the snapshot that maps
  209 to \<^verbatim>\<open>None\<close>.
\<close>

theorem all_absent_snapshot_is_returned:
  "async_update_data [(''209'', Got (http_response 200 (JDict [(''data'', JList [])])))]
   = (Inr [(''209'', JNull)], [''209''])"
  by (simp add: async_update_data_def cycle_defs fetch_defs http_response_def)

text \<open>
  Given a fetch that raises an authentication error, the \<^verbatim>\<open>except\<close> clause of line 134
  escalates: when the iterations over the datasets before \<open>d\<close> have completed and the
  fetch of \<open>d\<close> raises such an error, the cycle raises \<^verbatim>\<open>ConfigEntryAuthFailed\<close> at once
  and fetches none of the remaining datasets. The flag \<open>auth_failure_raised\<close> is clear
  in every state the loop reaches, since the assignment of line 138 follows the
  \<^verbatim>\<open>raise\<close> of line 137: the statements that swallow a further authentication error
  are never run.
\<close>

lemma raised_auth_error_escalates:
  assumes "fetch_loop initial_state pre = (None, st)"
    and "isinstance e FingridApiAuthError"
  shows "update_data (pre @ (d, Inl e) # rest)
           = (Inl ConfigEntryAuthFailed, map fst pre @ [d])
         \<and> \<not> auth_failure_raised st"
proof -
  have i: "\<not> auth_failure_raised initial_state"
    by (simp add: initial_state_def)
  have f: "\<not> auth_failure_raised st"
    using fetch_loop_flag [OF assms(1) i] .
  have g: "fetched st = map fst pre"
    using fetch_loop_fetched [OF assms(1) i] by (simp add: initial_state_def)
  have "loop_body st (d, Inl e) = (Some ConfigEntryAuthFailed, st\<lparr>fetched := fetched st @ [d]\<rparr>)"
    using f assms(2) by (simp add: loop_body_def)
  then have "fetch_loop initial_state (pre @ (d, Inl e) # rest)
             = (Some ConfigEntryAuthFailed, st\<lparr>fetched := fetched st @ [d]\<rparr>)"
    using assms(1) by (simp add: fetch_loop_append)
  then show ?thesis
    using f g by (simp add: update_data_def)
qed

text \<open>
  The fetch of this module raises no authentication error, so with it no cycle raises
  \<^verbatim>\<open>ConfigEntryAuthFailed\<close>, whatever the server answers.
\<close>

lemma fetch_raises_no_auth_instance:
  "async_fetch_dataset d outcome = Inl e \<Longrightarrow> \<not> isinstance e FingridApiAuthError"
proof -
  assume a: "async_fetch_dataset d outcome = Inl e"
  then obtain e0 where "fetch_handlers e0 = Inl e"
    by (auto simp: async_fetch_dataset_def split: sum.splits)
  then have "e = FingridApiError \<or> (\<not> isinstance e Exception \<and> e = e0)"
    by (auto simp: fetch_handlers_def split: if_splits)
  then show ?thesis
    by (cases e) (auto simp: isinstance_def)
qed

lemma loop_body_no_escalation:
  assumes "loop_body st x = (Some e, st')"
    and "\<forall>e0. snd x = Inl e0 \<longrightarrow> \<not> isinstance e0 FingridApiAuthError"
  shows "e \<noteq> ConfigEntryAuthFailed"
  using assms
  by (auto simp: loop_body_def Let_def isinstance_def
      split: sum.splits if_splits dest: after_delay_raises)

lemma fetch_loop_no_escalation:
  assumes "fetch_loop st xs = (Some e, st')"
    and "\<forall>x \<in> set xs. \<forall>e0. snd x = Inl e0 \<longrightarrow> \<not> isinstance e0 FingridApiAuthError"
  shows "e \<noteq> ConfigEntryAuthFailed"
  using assms
proof (induction xs arbitrary: st)
  case Nil
  then show ?case by simp
next
  case (Cons x xs)
  obtain r1 st1 where b: "loop_body st x = (r1, st1)"
    by (cases "loop_body st x")
  show ?case
  proof (cases r1)
    case None
    with b Cons.prems(1) have "fetch_loop st1 xs = (Some e, st')" by simp
    then show ?thesis using Cons.IH Cons.prems(2) by simp
  next
    case (Some e1)
    with b Cons.prems(1) have "e1 = e" by simp
    with b Some have "loop_body st x = (Some e, st1)" by simp
    then show ?thesis using loop_body_no_escalation Cons.prems(2) by simp
  qed
qed

lemma cycle_never_escalates:
  "fst (async_update_data enabled) \<noteq> Inl ConfigEntryAuthFailed"
proof -
  let ?xs = "map (\<lambda>(dataset_id, outcome).
                (dataset_id, async_fetch_dataset dataset_id outcome)) enabled"
  have h: "\<forall>x \<in> set ?xs. \<forall>e0. snd x = Inl e0 \<longrightarrow> \<not> isinstance e0 FingridApiAuthError"
    using fetch_raises_no_auth_instance by auto
  obtain r st where f: "fetch_loop initial_state ?xs = (r, st)"
    by (cases "fetch_loop initial_state ?xs")
  show ?thesis
  proof (cases r)
    case None
    with f show ?thesis by (simp add: async_update_data_def update_data_def)
  next
    case (Some e)
    with f h have "e \<noteq> ConfigEntryAuthFailed"
      using fetch_loop_no_escalation by blast
    with f Some show ?thesis by (simp add: async_update_data_def update_data_def)
  qed
qed

text \<open>
  C3. The specification has the first authentication error of a cycle escalate at once
  as the re-authentication signal, with no further dataset attempted. With dataset 209
  alone enabled and answered with status 403, the cycle ends with
  \<^verbatim>\<open>UnboundLocalError\<close> and not with \<^verbatim>\<open>ConfigEntryAuthFailed\<close>. With 209 answered with an
  observation, 177 with status 401 and 336 with an observation, nothing escalates: 336
  is still fetched and the snapshot returned holds the observation of 209 under 177.
\<close>

theorem auth_status_does_not_escalate:
  "async_update_data [(''209'', Got (http_response 403 JNull))]
     = (Inl UnboundLocalError, [''209''])
   \<and> async_update_data
       [(''209'', Got (http_response 200 (JDict [(''data'', JList [observation_209])]))),
        (''177'', Got (http_response 401 JNull)),
        (''336'',
         Got (http_response 200 (JDict [(''data'', JList [JDict [(''value'', JInt 0)]])])))]
     = (Inr [(''209'', observation_209), (''177'', observation_209),
             (''336'', JDict [(''value'', JInt 0)])],
        [''209'', ''177'', ''336''])"
  by (simp add: async_update_data_def cycle_defs fetch_defs http_response_def
      observation_209_def)

text \<open>
  C9. When the fetch of the first enabled dataset raises a rate limit error or a generic
  API error, the statements after the delay read \<open>result\<close> while it is unbound: the cycle
  ends with \<^verbatim>\<open>UnboundLocalError\<close>, a \<^verbatim>\<open>NameError\<close>, after that one fetch, and no snapshot
  is returned.
\<close>

theorem first_fetch_error_aborts_cycle:
  "e = FingridApiRateLimitError \<or> e = FingridApiError \<Longrightarrow>
   update_data ((d, Inl e) # rest) = (Inl UnboundLocalError, [d])
   \<and> isinstance UnboundLocalError NameError"
  by (auto simp: cycle_defs)

theorem first_fetch_error_aborts_cycle_witness:
  "update_data [(''209'', Inl FingridApiRateLimitError), (''177'', Inr observation_209)]
     = (Inl UnboundLocalError, [''209''])
   \<and> isinstance UnboundLocalError NameError"
  using first_fetch_error_aborts_cycle
    [of FingridApiRateLimitError "''209''" "[(''177'', Inr observation_209)]"]
  by simp

text \<open>
  With the fetch of this module: a first dataset answered with any status other than
  200 ends the cycle in the same way.
\<close>

lemma first_http_error_aborts_cycle:
  assumes "status r \<noteq> 200" and "text_body r = Inr t"
  shows "async_update_data ((d, Got r) # rest) = (Inl UnboundLocalError, [d])"
proof -
  have "async_fetch_dataset d (Got r) = Inl FingridApiError"
    using assms by (simp add: fetch_defs)
  then show ?thesis
    by (simp add: async_update_data_def update_data_def loop_body_def after_delay_def
        record_result_def initial_state_def isinstance_def)
qed

section \<open>Properties of the value presenters\<close>

lemma non_number_to_int:
  "(\<forall>k. v \<noteq> JInt k) \<and> (\<forall>c. v \<noteq> JBool c) \<and> (\<forall>f. v \<noteq> JFloat f) \<Longrightarrow>
   number_to_int v = None"
  by (cases v) auto

text \<open>
  C6, as stated. The JSON value \<^verbatim>\<open>true\<close> is no number, yet neither categorical presenter
  shows "Unknown" for it: it is decoded as the integer 1, which is also stored as
  \<^verbatim>\<open>raw_value\<close>.
\<close>

theorem categorical_decode_bool_counterexample:
  "power_system_update_state (new_sensor PowerSystemState ''209'')
     (JDict [(''value'', JBool True)])
   = Inr \<lparr>kind = PowerSystemState, sensor_dataset_id = ''209'',
          attr_native_value = JStr ''Normal'',
          attr_extra_state_attributes = [(''raw_value'', JInt 1)]\<rparr>
   \<and> shortage_update_state (new_sensor ElectricityShortage ''336'')
     (JDict [(''value'', JBool True)])
   = Inr \<lparr>kind = ElectricityShortage, sensor_dataset_id = ''336'',
          attr_native_value = JStr ''Electricity shortage possible'',
          attr_extra_state_attributes = [(''raw_value'', JInt 1)]\<rparr>"
  by (simp add: power_system_update_state_def shortage_update_state_def get_default_def
      new_sensor_def POWER_SYSTEM_STATE_MAP_def ELECTRICITY_SHORTAGE_STATUS_MAP_def)

text \<open>
  C6, amended. Let \<open>v\<close> be the \<^verbatim>\<open>value\<close> of the observation (\<^verbatim>\<open>None\<close> when the key is
  missing). When \<open>v\<close> is an int, a float or a bool (true counting as 1 and false as 0),
  and \<open>n\<close> is \<open>v\<close> truncated towards zero, each categorical presenter shows the label of
  \<open>n\<close> in its table, "Unknown" when \<open>n\<close> is not in the table, and stores \<open>n\<close> as
  \<^verbatim>\<open>raw_value\<close>. When \<open>v\<close> is no int, float or bool, each presenter shows "Unknown" and
  leaves the attributes as they were.
\<close>

theorem categorical_decode:
  assumes "get_default items ''value'' JNull = v"
  shows "(v = JInt n \<or> (v = JBool b \<and> n = (if b then 1 else 0))
            \<or> (v = JFloat q \<and> n = (if 0 \<le> q then \<lfloor>q\<rfloor> else \<lceil>q\<rceil>))
          \<longrightarrow> power_system_update_state s (JDict items)
                = Inr (s\<lparr>attr_native_value :=
                            JStr (if n = 1 then ''Normal'' else if n = 2 then ''Endangered''
                                  else if n = 3 then ''Disturbed'' else if n = 4 then ''Blackout''
                                  else if n = 5 then ''Restoration'' else ''Unknown''),
                         attr_extra_state_attributes :=
                            AList.update ''raw_value'' (JInt n) (attr_extra_state_attributes s)\<rparr>)
            \<and> shortage_update_state s (JDict items)
                = Inr (s\<lparr>attr_native_value :=
                            JStr (if n = 0 then ''Normal''
                                  else if n = 1 then ''Electricity shortage possible''
                                  else if n = 2 then ''High risk of electricity shortage''
                                  else if n = 3 then ''Electricity shortage'' else ''Unknown''),
                         attr_extra_state_attributes :=
                            AList.update ''raw_value'' (JInt n) (attr_extra_state_attributes s)\<rparr>))
       \<and> ((\<forall>k. v \<noteq> JInt k) \<and> (\<forall>c. v \<noteq> JBool c) \<and> (\<forall>f. v \<noteq> JFloat f)
          \<longrightarrow> power_system_update_state s (JDict items)
                = Inr (s\<lparr>attr_native_value := JStr ''Unknown''\<rparr>)
            \<and> shortage_update_state s (JDict items)
                = Inr (s\<lparr>attr_native_value := JStr ''Unknown''\<rparr>))"
  using assms non_number_to_int [of v]
  by (auto simp: power_system_update_state_def shortage_update_state_def Let_def
      int_of_float_def POWER_SYSTEM_STATE_MAP_def POWER_SYSTEM_STATE_UNKNOWN_def
      ELECTRICITY_SHORTAGE_STATUS_MAP_def ELECTRICITY_SHORTAGE_STATUS_UNKNOWN_def
      get_default_def [of "_ :: (int \<times> string) list"])

theorem categorical_decode_witness:
  "power_system_update_state (new_sensor PowerSystemState ''209'')
     (JDict [(''value'', JFloat (5 / 2))])
   = Inr \<lparr>kind = PowerSystemState, sensor_dataset_id = ''209'',
          attr_native_value = JStr ''Endangered'',
          attr_extra_state_attributes = [(''raw_value'', JInt 2)]\<rparr>
   \<and> shortage_update_state (new_sensor ElectricityShortage ''336'')
     (JDict [(''value'', JInt 1)])
   = Inr \<lparr>kind = ElectricityShortage, sensor_dataset_id = ''336'',
          attr_native_value = JStr ''Electricity shortage possible'',
          attr_extra_state_attributes = [(''raw_value'', JInt 1)]\<rparr>
   \<and> power_system_update_state (new_sensor PowerSystemState ''209'')
     (JDict [(''value'', JInt 99)])
   = Inr \<lparr>kind = PowerSystemState, sensor_dataset_id = ''209'',
          attr_native_value = JStr ''Unknown'',
          attr_extra_state_attributes = [(''raw_value'', JInt 99)]\<rparr>
   \<and> shortage_update_state (new_sensor ElectricityShortage ''336'')
     (JDict [(''value'', JInt 99)])
   = Inr \<lparr>kind = ElectricityShortage, sensor_dataset_id = ''336'',
          attr_native_value = JStr ''Unknown'',
          attr_extra_state_attributes = [(''raw_value'', JInt 99)]\<rparr>
   \<and> power_system_update_state (new_sensor PowerSystemState ''209'')
     (JDict [(''value'', JStr ''high'')])
   = Inr \<lparr>kind = PowerSystemState, sensor_dataset_id = ''209'',
          attr_native_value = JStr ''Unknown'', attr_extra_state_attributes = []\<rparr>
   \<and> shortage_update_state (new_sensor ElectricityShortage ''336'')
     (JDict [(''value'', JStr ''high'')])
   = Inr \<lparr>kind = ElectricityShortage, sensor_dataset_id = ''336'',
          attr_native_value = JStr ''Unknown'', attr_extra_state_attributes = []\<rparr>"
proof -
  have g: "\<And>x. get_default [(''value'', x)] ''value'' JNull = x"
    by (simp add: get_default_def)
  have fl: "\<lfloor>5 / 2 :: rat\<rfloor> = 2"
    by (rule floor_unique) simp_all
  show ?thesis
    using fl
      categorical_decode [OF g, of "JFloat (5 / 2)" 2 False "5 / 2"
        "new_sensor PowerSystemState ''209''"]
      categorical_decode [OF g, of "JInt 1" 1 False 0 "new_sensor ElectricityShortage ''336''"]
      categorical_decode [OF g, of "JInt 99" 99 False 0 "new_sensor PowerSystemState ''209''"]
      categorical_decode [OF g, of "JInt 99" 99 False 0 "new_sensor ElectricityShortage ''336''"]
      categorical_decode [OF g, of "JStr ''high''" 0 False 0 "new_sensor PowerSystemState ''209''"]
      categorical_decode [OF g, of "JStr ''high''" 0 False 0
        "new_sensor ElectricityShortage ''336''"]
    by (simp add: new_sensor_def)
qed

text \<open>
  C7. When the dataset of a sensor is absent from the current snapshot, its key missing
  or its value \<^verbatim>\<open>None\<close>, the coordinator update leaves the fields of the sensor as they
  were, \<^verbatim>\<open>available\<close> is false and the state written and presented is "unavailable",
  whatever value the sensor holds from an earlier snapshot.
\<close>

theorem absent_dataset_unavailable:
  assumes "data c = Some snapshot"
    and "map_of snapshot (sensor_dataset_id s) = None
         \<or> map_of snapshot (sensor_dataset_id s) = Some JNull"
  shows "handle_coordinator_update str_is_number c s = Inr s \<and> \<not> available c s
         \<and> presented_state c s = Unavailable
         \<and> async_write_ha_state str_is_number c s = Inr Unavailable"
  using assms
  by (auto simp: handle_coordinator_update_def update_from_coordinator_def
      async_write_ha_state_def available_def presented_state_def)

theorem absent_dataset_unavailable_witness:
  "handle_coordinator_update (\<lambda>x. False)
     \<lparr>last_update_success = True, data = Some [(''209'', JNull), (''177'', observation_209)]\<rparr>
     endangered_sensor = Inr endangered_sensor
   \<and> presented_state
     \<lparr>last_update_success = True, data = Some [(''209'', JNull), (''177'', observation_209)]\<rparr>
     endangered_sensor = Unavailable
   \<and> presented_state \<lparr>last_update_success = True, data = Some [(''177'', observation_209)]\<rparr>
     endangered_sensor = Unavailable"
  using
    absent_dataset_unavailable
      [of "\<lparr>last_update_success = True,
            data = Some [(''209'', JNull), (''177'', observation_209)]\<rparr>"
          "[(''209'', JNull), (''177'', observation_209)]" endangered_sensor "\<lambda>x. False"]
    absent_dataset_unavailable
      [of "\<lparr>last_update_success = True, data = Some [(''177'', observation_209)]\<rparr>"
          "[(''177'', observation_209)]" endangered_sensor "\<lambda>x. False"]
  by (simp add: endangered_sensor_def)

text \<open>What the write hands to the host, when it raises nothing, is the state presented.\<close>

lemma written_state_is_presented:
  "async_write_ha_state str_is_number c s = Inr written \<Longrightarrow> written = presented_state c s"
  by (auto simp: async_write_ha_state_def presented_state_def split: if_splits)

text \<open>
  A grid frequency sensor whose dataset arrives with a value that is no number: the
  update stores the value and the write raises \<^verbatim>\<open>ValueError\<close>.
\<close>

lemma frequency_non_numeric_write_raises:
  "handle_coordinator_update (\<lambda>x. False)
     \<lparr>last_update_success = True, data = Some [(''177'', JDict [(''value'', JStr ''n/a'')])]\<rparr>
     (new_sensor GridFrequency ''177'') = Inl ValueError"
  by (simp add: handle_coordinator_update_def update_from_coordinator_def update_state_def
      base_update_state_def async_write_ha_state_def available_def numeric_state_expected_def
      get_default_def new_sensor_def)

lemma base_update_state_again:
  "base_update_state s obs = Inr s' \<Longrightarrow> base_update_state s' obs = Inr s'"
  by (auto simp: base_update_state_def Let_def split: json.splits option.splits)

lemma power_system_update_state_again:
  "power_system_update_state s obs = Inr s' \<Longrightarrow> power_system_update_state s' obs = Inr s'"
  by (auto simp: power_system_update_state_def Let_def
      split: json.splits option.splits sum.splits)

lemma shortage_update_state_again:
  "shortage_update_state s obs = Inr s' \<Longrightarrow> shortage_update_state s' obs = Inr s'"
  by (auto simp: shortage_update_state_def Let_def
      split: json.splits option.splits sum.splits)

lemma base_update_state_kind:
  "base_update_state s obs = Inr s' \<Longrightarrow>
   kind s' = kind s \<and> sensor_dataset_id s' = sensor_dataset_id s"
  by (auto simp: base_update_state_def Let_def split: json.splits option.splits)

lemma power_system_update_state_kind:
  "power_system_update_state s obs = Inr s' \<Longrightarrow>
   kind s' = kind s \<and> sensor_dataset_id s' = sensor_dataset_id s"
  by (auto simp: power_system_update_state_def Let_def
      split: json.splits option.splits sum.splits)

lemma shortage_update_state_kind:
  "shortage_update_state s obs = Inr s' \<Longrightarrow>
   kind s' = kind s \<and> sensor_dataset_id s' = sensor_dataset_id s"
  by (auto simp: shortage_update_state_def Let_def
      split: json.splits option.splits sum.splits)

lemma update_state_kind:
  "update_state s obs = Inr s' \<Longrightarrow>
   kind s' = kind s \<and> sensor_dataset_id s' = sensor_dataset_id s"
  by (cases "kind s")
    (auto simp: update_state_def
      dest: base_update_state_kind power_system_update_state_kind shortage_update_state_kind)

lemma update_state_again:
  assumes "update_state s obs = Inr s'"
  shows "update_state s' obs = Inr s'"
proof -
  have k: "kind s' = kind s"
    using assms update_state_kind by blast
  show ?thesis
    using assms k
    by (cases "kind s")
      (auto simp: update_state_def
        dest: base_update_state_again power_system_update_state_again
          shortage_update_state_again)
qed

text \<open>
  C8. For every sensor and every observation, updating the state from the observation
  and then once more from the same observation gives exactly what one update gives: the
  same state and attributes, or the same exception.
\<close>

theorem update_state_idempotent:
  "(case update_state s obs of Inl e \<Rightarrow> Inl e | Inr s' \<Rightarrow> update_state s' obs)
     = update_state s obs"
  by (cases "update_state s obs") (auto dest: update_state_again)



end
